theory Spec2Isabelle
  imports Complex_Main
begin

section \<open>Python and numpy values\<close>

text \<open>
  The script waveformCompare_20170110_master.py works on numpy arrays of float64
  samples. A finite float64 value is the real number it denotes. A computed float
  that can leave the reals (a correlation coefficient of a silent window, a
  division by zero) is an \<open>npfloat\<close>: numpy returns nan or an infinity there and
  raises nothing. Every Python exception of the modelled lines is a value of
  \<open>py_error\<close>.

  An arithmetic operation on float64 values returns the float64 value nearest to
  the exact result, and a decimal literal such as 0.001 is the float64 value
  nearest to it. Where the source takes a whole number from such a result
  (\<open>np.floor\<close>, \<open>int\<close>, \<open>round\<close>) or compares sums of floats, this rounding
  is the parameter \<open>rnd\<close> of the modelled function: the operation is \<open>rnd\<close> of the
  exact result, for whatever \<open>rnd\<close> is. Overflow is not modelled. In the velocities
  of \<open>phase_vel\<close>, the ratio of \<open>sn_ratio\<close> and the quotient of \<open>is_local\<close> the
  operations are exact.
\<close>

datatype py_error = IndexError | ValueError | ZeroDivisionError | TypeError | UnboundLocalError

datatype npfloat = Fin real | PInf | NInf | NaN

text \<open>Comparison of a float with a float constant; every comparison with nan is False.\<close>

fun np_ge :: "npfloat \<Rightarrow> real \<Rightarrow> bool" where
  "np_ge (Fin r) t = (t \<le> r)"
| "np_ge PInf t = True"
| "np_ge NInf t = False"
| "np_ge NaN t = False"

text \<open>\<open>x <= y\<close> and \<open>x > y\<close> on float64 values.\<close>

fun np_le :: "npfloat \<Rightarrow> npfloat \<Rightarrow> bool" where
  "np_le NaN y = False"
| "np_le x NaN = False"
| "np_le NInf y = True"
| "np_le x PInf = True"
| "np_le (Fin a) (Fin b) = (a \<le> b)"
| "np_le PInf y = False"
| "np_le x NInf = False"

fun np_gt :: "npfloat \<Rightarrow> npfloat \<Rightarrow> bool" where
  "np_gt NaN y = False"
| "np_gt x NaN = False"
| "np_gt x y = (\<not> np_le x y)"

text \<open>Float addition, as \<open>sum\<close> needs it: the sum of two finite values is rounded.\<close>

fun np_add :: "(real \<Rightarrow> real) \<Rightarrow> npfloat \<Rightarrow> npfloat \<Rightarrow> npfloat" where
  "np_add rnd NaN y = NaN"
| "np_add rnd x NaN = NaN"
| "np_add rnd (Fin a) (Fin b) = Fin (rnd (a + b))"
| "np_add rnd PInf NInf = NaN"
| "np_add rnd NInf PInf = NaN"
| "np_add rnd PInf y = PInf"
| "np_add rnd x PInf = PInf"
| "np_add rnd NInf y = NInf"
| "np_add rnd x NInf = NInf"

text \<open>
  numpy's division of two finite float64 values: a zero divisor gives an infinity
  with the sign of the dividend, and 0/0 gives nan (the sign of a zero is not
  modelled).
\<close>

definition np_div :: "real \<Rightarrow> real \<Rightarrow> npfloat" where
  "np_div a b =
     (if b \<noteq> 0 then Fin (a / b)
      else if 0 < a then PInf
      else if a < 0 then NInf
      else NaN)"

text \<open>\<open>int(x)\<close> truncates towards zero; \<open>round(x)\<close> rounds halves to the even neighbour.\<close>

definition py_int :: "real \<Rightarrow> int" where
  "py_int x = (if 0 \<le> x then \<lfloor>x\<rfloor> else \<lceil>x\<rceil>)"

definition py_round :: "real \<Rightarrow> int" where
  "py_round x =
     (if x - of_int \<lfloor>x\<rfloor> < 1 / 2 then \<lfloor>x\<rfloor>
      else if 1 / 2 < x - of_int \<lfloor>x\<rfloor> then \<lfloor>x\<rfloor> + 1
      else if even \<lfloor>x\<rfloor> then \<lfloor>x\<rfloor>
      else \<lfloor>x\<rfloor> + 1)"

text \<open>
  A slice bound is clamped into \<open>0..len\<close>, a negative bound counting from the end;
  \<open>xs[lo:hi]\<close> is empty when the clamped bounds cross.
\<close>

definition slice_bound :: "nat \<Rightarrow> int \<Rightarrow> nat" where
  "slice_bound n i = (if i < 0 then nat (max 0 (int n + i)) else min n (nat i))"

definition py_slice :: "'a list \<Rightarrow> int \<Rightarrow> int \<Rightarrow> 'a list" where
  "py_slice xs lo hi =
     (let a = slice_bound (length xs) lo; b = slice_bound (length xs) hi
      in take (b - a) (drop a xs))"

text \<open>\<open>xs[i]\<close>: a negative index counts from the end, an index out of range raises.\<close>

definition py_index :: "'a list \<Rightarrow> int \<Rightarrow> py_error + 'a" where
  "py_index xs i =
     (if 0 \<le> i \<and> i < int (length xs) then Inr (xs ! nat i)
      else if i < 0 \<and> - int (length xs) \<le> i then Inr (xs ! nat (int (length xs) + i))
      else Inl IndexError)"

text \<open>\<open>range(a, b)\<close>.\<close>

definition py_range :: "int \<Rightarrow> int \<Rightarrow> int list" where
  "py_range a b = [a..b - 1]"

text \<open>The builtins \<open>max\<close> and \<open>min\<close> over a sequence of finite samples.\<close>

fun py_max :: "real list \<Rightarrow> py_error + real" where
  "py_max [] = Inl ValueError"
| "py_max (x # xs) = Inr (foldl (\<lambda>m y. if m < y then y else m) x xs)"

fun py_min :: "real list \<Rightarrow> py_error + real" where
  "py_min [] = Inl ValueError"
| "py_min (x # xs) = Inr (foldl (\<lambda>m y. if y < m then y else m) x xs)"

section \<open>Distance classification\<close>

text \<open>
  \<open>baz\<close> is the triple returned by gps2dist_azimuth: great-circle distance in
  metres, azimuth, backazimuth. \<open>baz[0]\<close> is its first component.
\<close>

definition is_local :: "real \<times> real \<times> real \<Rightarrow> string" where
  "is_local baz =
     (if 0.001 * fst baz / 111.11 < 10.0 then
        (if 0.001 * fst baz / 111.11 < 3.0 then ''close'' else ''local'')
      else ''non-local'')"

section \<open>Traces and streams\<close>

text \<open>
  Of an obspy Trace the modelled functions read the sampling rate, the component
  letter that \<open>Stream.select\<close> matches, and the samples. A Stream is the list of
  its traces; \<open>st[0]\<close> on an empty stream raises IndexError.
  \<open>Stream.select(component=c)\<close> keeps the traces whose component matches \<open>c\<close>
  once both are put in upper case (\<open>str.upper\<close>, here on the letters a to z); the
  script passes the patterns E, N, 1 and 2, which hold no wildcard.
\<close>

record trace =
  sampling_rate :: real
  component :: string
  data :: "real list"

type_synonym stream = "trace list"

definition upper_char :: "char \<Rightarrow> char" where
  "upper_char c =
     (case map_of (zip ''abcdefghijklmnopqrstuvwxyz'' ''ABCDEFGHIJKLMNOPQRSTUVWXYZ'') c of
        Some u \<Rightarrow> u
      | None \<Rightarrow> c)"

definition upper :: "string \<Rightarrow> string" where
  "upper s = map upper_char s"

definition select :: "stream \<Rightarrow> string \<Rightarrow> stream" where
  "select st c = filter (\<lambda>tr. upper (component tr) = upper c) st"

definition station_components :: "string \<Rightarrow> string \<times> string" where
  "station_components station =
     (if station = ''RLAS'' then (''E'', ''N'') else (''1'', ''2''))"

section \<open>Resampling policy\<close>

text \<open>
  \<open>Stream.decimate(factor)\<close> is obspy's; it is a parameter \<open>decimate\<close> acting on one
  trace, and a stream decimates each of its traces. The truncation loop runs over
  the traces of \<open>rt + ac\<close> and reads \<open>rt[0]\<close> in each round, so it raises only when
  there is a trace to truncate and \<open>rt\<close> is empty. The number of samples kept is
  \<open>int\<close> of the float product of 1800 and the sampling rate. A class string other
  than the three leaves the returned names unbound.
\<close>

definition truncate_1800 ::
  "(real \<Rightarrow> real) \<Rightarrow> stream \<Rightarrow> stream \<Rightarrow> py_error + (stream \<times> stream)" where
  "truncate_1800 rnd rt ac =
     (if rt @ ac = [] then Inr (rt, ac)
      else case rt of
        [] \<Rightarrow> Inl IndexError
      | rt0 # _ \<Rightarrow>
          Inr (map (\<lambda>trr. trr\<lparr>data := py_slice (data trr) 0
                                          (py_int (rnd (1800 * sampling_rate rt0)))\<rparr>) rt,
               map (\<lambda>trr. trr\<lparr>data := py_slice (data trr) 0
                                          (py_int (rnd (1800 * sampling_rate rt0)))\<rparr>) ac))"

definition resample ::
  "(real \<Rightarrow> real) \<Rightarrow> (nat \<Rightarrow> trace \<Rightarrow> trace) \<Rightarrow> string \<Rightarrow> real \<times> real \<times> real \<Rightarrow> stream \<Rightarrow> stream
   \<Rightarrow> py_error + (stream \<times> stream \<times> stream \<times> stream \<times> int \<times> real \<times> real)" where
  "resample rnd decimate is_local_str baz rt ac =
     (let cutoff_pc = 0.5 in
      if is_local_str = ''local'' then
        (case truncate_1800 rnd rt ac of
           Inl e \<Rightarrow> Inl e
         | Inr (rt1, ac1) \<Rightarrow>
             Inr (map (decimate 2) rt1, map (decimate 2) ac1, rt1, ac1, 5, 2.0, cutoff_pc))
      else if is_local_str = ''non-local'' then
        Inr (map (decimate 4) rt, map (decimate 4) ac,
             map (decimate 2) rt, map (decimate 2) ac, 120, 1.0, cutoff_pc)
      else if is_local_str = ''close'' then
        (case truncate_1800 rnd rt ac of
           Inl e \<Rightarrow> Inl e
         | Inr (rt1, ac1) \<Rightarrow>
             Inr (map (decimate 2) rt1, map (decimate 2) ac1, rt1, ac1, 3, 4.0, cutoff_pc))
      else Inl UnboundLocalError)"

section \<open>Theoretical arrival times\<close>

text \<open>
  \<open>TauPyModel('iasp91').get_travel_times\<close> is obspy's; it is a parameter that maps
  distance in degrees and source depth to the list of arrivals, each a phase name
  with its travel time. The two loops collect the times of the phases named in a
  family; \<open>min\<close> of an empty list raises ValueError. The distance in degrees
  \<open>0.001 * distance / 111.11\<close> and the sum \<open>init_sec + min(...)\<close> are float
  operations; \<open>np.floor\<close> returns the float of the whole number below the sum.
\<close>

definition pwave_list :: "string list" where
  "pwave_list = [''P'', ''p'', ''Pdiff'', ''PKiKP'', ''PKIKP'', ''PP'', ''Pb'', ''Pn'', ''Pg'']"

definition swave_list :: "string list" where
  "swave_list = [''S'', ''s'', ''Sdiff'', ''SKiKS'', ''SKIKS'', ''SS'', ''Sb'', ''Sn'', ''Sg'']"

fun family_times :: "string list \<Rightarrow> (string \<times> real) list \<Rightarrow> real list" where
  "family_times names [] = []"
| "family_times names (a # tt) =
     (if fst a \<in> set names then snd a # family_times names tt
      else family_times names tt)"

definition ps_arrival_times ::
  "(real \<Rightarrow> real) \<Rightarrow> (real \<Rightarrow> real \<Rightarrow> (string \<times> real) list) \<Rightarrow> real \<Rightarrow> real \<Rightarrow> real
   \<Rightarrow> py_error + (real \<times> real)" where
  "ps_arrival_times rnd get_travel_times distance depth init_sec =
     (let tt = get_travel_times (rnd (rnd (rnd 0.001 * distance) / rnd 111.11)) depth in
      case py_min (family_times pwave_list tt) of
        Inl e \<Rightarrow> Inl e
      | Inr min_p \<Rightarrow>
          (case py_min (family_times swave_list tt) of
             Inl e \<Rightarrow> Inl e
           | Inr min_s \<Rightarrow>
               Inr (of_int \<lfloor>rnd (init_sec + min_p)\<rfloor>, of_int \<lfloor>rnd (init_sec + min_s)\<rfloor>)))"

section \<open>Windowed zero-lag correlation\<close>

text \<open>
  \<open>xcorr(a, b, 0)[1]\<close> is obspy's zero-lag correlation coefficient of two windows;
  it is the parameter \<open>xcorr\<close>. The loop runs over
  \<open>range(0, len(rodat) // (rotra_SR * sec))\<close>; the floor division raises when the
  divisor is zero. \<open>thres\<close> is the array of \<open>len(corrcoefs) + 1\<close> values 0.75.
\<close>

definition Get_corrcoefs ::
  "(real list \<Rightarrow> real list \<Rightarrow> npfloat) \<Rightarrow> trace \<Rightarrow> real list \<Rightarrow> stream \<Rightarrow> real list \<Rightarrow> int \<Rightarrow> string
   \<Rightarrow> py_error + (npfloat list \<times> real list)" where
  "Get_corrcoefs xcorr rotra rodat acstr rotate_array sec station =
     (let compN = snd (station_components station);
          rotra_SR = py_int (sampling_rate rotra)
      in (case select acstr compN of
            [] \<Rightarrow> Inl IndexError
          | trN # _ \<Rightarrow>
              (let compN_SR = py_int (sampling_rate trN) in
               if rotra_SR * sec = 0 then Inl ZeroDivisionError
               else
                 (let corrcoefs =
                        map (\<lambda>i5. xcorr (py_slice rodat (rotra_SR * sec * i5) (rotra_SR * sec * (i5 + 1)))
                                         (py_slice rotate_array (compN_SR * sec * i5) (compN_SR * sec * (i5 + 1))))
                            (py_range 0 (int (length rodat) div (rotra_SR * sec)))
                  in Inr (corrcoefs, replicate (length corrcoefs + 1) 0.75)))))"

section \<open>Signal-to-noise ratio\<close>

text \<open>
  \<open>np.mean\<close> of an empty slice is nan (with a warning), and a quotient with nan is
  nan; the quotient of two finite values is numpy's division.
\<close>

definition np_mean :: "real list \<Rightarrow> npfloat" where
  "np_mean xs = (if xs = [] then NaN else Fin (sum_list xs / real (length xs)))"

definition sn_ratio :: "real list \<Rightarrow> real \<Rightarrow> real \<Rightarrow> py_error + npfloat" where
  "sn_ratio full_signal p_arrival0 sam_rate0 =
     (let sam_rate = py_int sam_rate0;
          p_arrival = py_round p_arrival0
      in case py_max full_signal of
           Inl e \<Rightarrow> Inl e
         | Inr tr_sign \<Rightarrow>
             (case np_mean (py_slice full_signal (sam_rate * (p_arrival - 180))
                                                 (sam_rate * (p_arrival - 100))) of
                Fin m \<Rightarrow> Inr (np_div tr_sign \<bar>m\<bar>)
              | _ \<Rightarrow> Inr NaN))"

text \<open>
  The signal-to-noise ratio in the words of the specification: the peak absolute
  amplitude of the whole trace over the mean absolute amplitude of the samples of
  the noise window, 180 to 100 seconds before the P arrival.
\<close>

definition sn_ratio_spec :: "real list \<Rightarrow> int \<Rightarrow> int \<Rightarrow> real" where
  "sn_ratio_spec full_signal p_arrival sam_rate =
     Max (set (map abs full_signal))
     / (sum_list (map abs (py_slice full_signal (sam_rate * (p_arrival - 180))
                                                  (sam_rate * (p_arrival - 100))))
        / real (length (py_slice full_signal (sam_rate * (p_arrival - 180))
                                               (sam_rate * (p_arrival - 100)))))"

section \<open>Reductions over float arrays\<close>

text \<open>
  The builtin \<open>sum\<close> adds the elements to 0 from the left. The builtin \<open>max\<close>
  over a float array keeps its current value unless the next element is greater.
  \<open>np.argmax\<close> returns the first index of the maximum, and the index of the first
  nan when there is one: its loop replaces the current maximum by every element
  that is not \<open><=\<close> it and stops at a nan. \<open>np.max\<close> returns nan when the array
  holds one. \<open>max\<close>, \<open>np.argmax\<close> and \<open>np.max\<close> raise ValueError on an empty
  array.
\<close>

definition py_sum :: "(real \<Rightarrow> real) \<Rightarrow> npfloat list \<Rightarrow> npfloat" where
  "py_sum rnd xs = foldl (np_add rnd) (Fin 0) xs"

fun py_max_np :: "npfloat list \<Rightarrow> py_error + npfloat" where
  "py_max_np [] = Inl ValueError"
| "py_max_np (x # xs) = Inr (foldl (\<lambda>m y. if np_gt y m then y else m) x xs)"

fun argmax_loop :: "npfloat \<Rightarrow> nat \<Rightarrow> nat \<Rightarrow> npfloat list \<Rightarrow> nat" where
  "argmax_loop mp max_ind i [] = max_ind"
| "argmax_loop mp max_ind i (x # xs) =
     (if np_le x mp then argmax_loop mp max_ind (Suc i) xs
      else if x = NaN then i
      else argmax_loop x i (Suc i) xs)"

fun np_argmax :: "npfloat list \<Rightarrow> py_error + nat" where
  "np_argmax [] = Inl ValueError"
| "np_argmax (x # xs) = Inr (if x = NaN then 0 else argmax_loop x 0 1 xs)"

fun np_amax :: "npfloat list \<Rightarrow> py_error + npfloat" where
  "np_amax [] = Inl ValueError"
| "np_amax (x # xs) =
     Inr (foldl (\<lambda>m y. if m = NaN \<or> y = NaN then NaN else if np_gt y m then y else m) x xs)"

text \<open>\<open>x == t\<close> for a float constant \<open>t\<close>.\<close>

fun np_eq :: "npfloat \<Rightarrow> real \<Rightarrow> bool" where
  "np_eq (Fin r) t = (r = t)"
| "np_eq x t = False"

text \<open>
  \<open>np.linspace(start, stop, num)\<close> with the end point: \<open>num\<close> values
  \<open>i * step + start\<close> with \<open>step = (stop - start) / (num - 1)\<close>, the last one set
  to \<open>stop\<close>.
\<close>

definition np_linspace :: "real \<Rightarrow> real \<Rightarrow> nat \<Rightarrow> real list" where
  "np_linspace start stop num =
     (if num = 0 then []
      else if num = 1 then [start]
      else map (\<lambda>i. real i * ((stop - start) / real (num - 1)) + start) [0..<num - 1] @ [stop])"

section \<open>Backazimuth estimation\<close>

text \<open>
  \<open>rotate_ne_rt(n, e, ba)\<close> is obspy's rotation of the horizontal components; it
  is a parameter returning the radial and the transverse array, and obspy raises
  TypeError when the two components differ in length. The first part of
  \<open>backas_est\<close> reads the sampling rate and cuts the three channels to the samples
  from the S-wave start to the end of the later surface waves; the two sample
  indices are \<open>round\<close> of the float products of the times and the rate.
\<close>

definition backas_est_cut ::
  "(real \<Rightarrow> real) \<Rightarrow> stream \<Rightarrow> stream \<Rightarrow> real \<Rightarrow> real \<Rightarrow> string
   \<Rightarrow> py_error + (int \<times> real list \<times> real list \<times> real list)" where
  "backas_est_cut rnd rt ac min_sw max_lwf station =
     (let compE = fst (station_components station);
          compN = snd (station_components station)
      in (case rt of
            [] \<Rightarrow> Inl IndexError
          | rt0 # _ \<Rightarrow>
              (let rt_SR = py_int (sampling_rate rt0);
                   min_sw_rt = py_round (rnd (min_sw * of_int rt_SR));
                   max_lwf_rt = py_round (rnd (max_lwf * of_int rt_SR));
                   rt2 = py_slice (data rt0) min_sw_rt max_lwf_rt
               in (case select ac compN of
                     [] \<Rightarrow> Inl IndexError
                   | trN # _ \<Rightarrow>
                       (case select ac compE of
                          [] \<Rightarrow> Inl IndexError
                        | trE # _ \<Rightarrow>
                            Inr (rt_SR, rt2,
                                 py_slice (data trN) min_sw_rt max_lwf_rt,
                                 py_slice (data trE) min_sw_rt max_lwf_rt))))))"

text \<open>
  The double loop: one row of coefficients per candidate backazimuth, one
  coefficient per window of \<open>rt_SR * sec2\<close> samples. The flat list of the source,
  reshaped to \<open>len(backas2)\<close> rows, is this list of rows.
\<close>

definition corrbaz2_rows ::
  "(real list \<Rightarrow> real list \<Rightarrow> npfloat) \<Rightarrow> (real list \<Rightarrow> real list \<Rightarrow> real \<Rightarrow> real list \<times> real list)
   \<Rightarrow> int \<Rightarrow> int \<Rightarrow> real list \<Rightarrow> real list \<Rightarrow> real list \<Rightarrow> real list \<Rightarrow> npfloat list list" where
  "corrbaz2_rows xcorr rotate_ne_rt rt_SR sec2 rt2 acn2 ace2 backas2 =
     map (\<lambda>ba.
            map (\<lambda>j4. xcorr (py_slice rt2 (rt_SR * sec2 * j4) (rt_SR * sec2 * (j4 + 1)))
                             (py_slice (snd (rotate_ne_rt acn2 ace2 ba))
                                       (rt_SR * sec2 * j4) (rt_SR * sec2 * (j4 + 1))))
                (py_range 0 (int (length rt2) div (rt_SR * sec2))))
         backas2"

definition corradj :: "npfloat \<Rightarrow> npfloat" where
  "corradj c = (if np_ge c 0.9 then c else Fin 0.0)"

text \<open>
  With no window, \<open>rotate_ne_rt\<close> is never called and \<open>corrbaz2[:, 0]\<close> raises
  IndexError on the array of zero columns.
\<close>

definition backas_est ::
  "(real \<Rightarrow> real) \<Rightarrow> (real list \<Rightarrow> real list \<Rightarrow> npfloat)
   \<Rightarrow> (real list \<Rightarrow> real list \<Rightarrow> real \<Rightarrow> real list \<times> real list)
   \<Rightarrow> stream \<Rightarrow> stream \<Rightarrow> real \<Rightarrow> real \<Rightarrow> string
   \<Rightarrow> py_error + (npfloat list \<times> real list \<times> npfloat \<times> real)" where
  "backas_est rnd xcorr rotate_ne_rt rt ac min_sw max_lwf station =
     (case backas_est_cut rnd rt ac min_sw max_lwf station of
        Inl e \<Rightarrow> Inl e
      | Inr (rt_SR, rt2, acn2, ace2) \<Rightarrow>
          (let sec2 = 30;
               step2 = 1;
               backas2 = np_linspace 0 (real_of_int (360 - step2)) (nat (py_int (360 / real_of_int step2)))
           in if rt_SR * sec2 = 0 then Inl ZeroDivisionError
              else if 0 < int (length rt2) div (rt_SR * sec2) \<and> length acn2 \<noteq> length ace2
                then Inl TypeError
              else if int (length rt2) div (rt_SR * sec2) \<le> 0 then Inl IndexError
              else
                (let corrbaz2 = corrbaz2_rows xcorr rotate_ne_rt rt_SR sec2 rt2 acn2 ace2 backas2;
                     corrsum = map (\<lambda>row. py_sum rnd (map corradj row)) corrbaz2
                 in (case np_argmax corrsum of
                       Inl e \<Rightarrow> Inl e
                     | Inr j \<Rightarrow>
                         (case py_index backas2 (int j) of
                            Inl e \<Rightarrow> Inl e
                          | Inr best_ebaz \<Rightarrow>
                              (case py_index corrbaz2 (py_int best_ebaz) of
                                 Inl e \<Rightarrow> Inl e
                               | Inr row \<Rightarrow>
                                   (case np_amax row of
                                      Inl e \<Rightarrow> Inl e
                                    | Inr max_ebaz_xcoef \<Rightarrow>
                                        Inr (corrsum, backas2, max_ebaz_xcoef, best_ebaz))))))))"

section \<open>Phase velocities and the estimated backazimuth\<close>

text \<open>
  The argument \<open>rotate\<close> of the source, here \<open>rotate_arr\<close>, is the pair of arrays
  returned by \<open>rotate_ne_rt\<close>; \<open>rotate[1]\<close> is the transverse acceleration. Both
  windows of a round are cut with the rotation sampling rate. A window without
  samples makes \<open>max\<close> raise ValueError. One round of the loop of \<open>phase_vel\<close>,
  for the window index \<open>i8\<close>:
\<close>

definition phas_v ::
  "trace \<Rightarrow> int \<Rightarrow> int \<Rightarrow> npfloat list \<Rightarrow> real list \<times> real list \<Rightarrow> int \<Rightarrow> py_error + npfloat" where
  "phas_v rt0 rt_SR sec corrcoefs rotate_arr i8 =
     (case py_index corrcoefs i8 of
        Inl e \<Rightarrow> Inl e
      | Inr c \<Rightarrow>
          if np_ge c 0.75 then
            (case py_max (py_slice (snd rotate_arr) (rt_SR * sec * i8) (rt_SR * sec * (i8 + 1))) of
               Inl e \<Rightarrow> Inl e
             | Inr max_acc \<Rightarrow>
                 (case py_max (py_slice (data rt0) (rt_SR * sec * i8) (rt_SR * sec * (i8 + 1))) of
                    Inl e \<Rightarrow> Inl e
                  | Inr max_rot \<Rightarrow> Inr (np_div (0.001 * 0.5 * max_acc) max_rot)))
          else Inr NaN)"

text \<open>The loop appends one value per index and stops at the first exception.\<close>

fun phasv_loop ::
  "trace \<Rightarrow> int \<Rightarrow> int \<Rightarrow> npfloat list \<Rightarrow> real list \<times> real list \<Rightarrow> int list \<Rightarrow> py_error + npfloat list" where
  "phasv_loop rt0 rt_SR sec corrcoefs rotate_arr [] = Inr []"
| "phasv_loop rt0 rt_SR sec corrcoefs rotate_arr (i8 # rest) =
     (case phas_v rt0 rt_SR sec corrcoefs rotate_arr i8 of
        Inl e \<Rightarrow> Inl e
      | Inr v \<Rightarrow>
          (case phasv_loop rt0 rt_SR sec corrcoefs rotate_arr rest of
             Inl e \<Rightarrow> Inl e
           | Inr vs \<Rightarrow> Inr (v # vs)))"

text \<open>
  The estimated backazimuth: nan when the largest sum is 0.0, else the candidate
  at the \<open>argmax\<close> of the sums.
\<close>

definition estimated_backazimuth :: "npfloat list \<Rightarrow> real list \<Rightarrow> py_error + npfloat" where
  "estimated_backazimuth corrsum backas2 =
     (case py_max_np corrsum of
        Inl e \<Rightarrow> Inl e
      | Inr m \<Rightarrow>
          if np_eq m 0.0 then Inr NaN
          else
            (case np_argmax corrsum of
               Inl e \<Rightarrow> Inl e
             | Inr j \<Rightarrow>
                 (case py_index backas2 (int j) of
                    Inl e \<Rightarrow> Inl e
                  | Inr b \<Rightarrow> Inr (Fin b))))"

text \<open>
  \<open>phase_vel\<close> starts its loop at \<open>ind_surf\<close> when \<open>ind_band\<close> is true and at 0
  otherwise, and runs to the last window of \<open>corrcoefs\<close>. The script calls it with
  \<open>ind_band = False\<close> for the full-band signal and with \<open>ind_band = True\<close> for each
  of the eight frequency bands, always with the one value \<open>ind_surf\<close> it computed
  before the first call.
\<close>

definition phase_vel ::
  "stream \<Rightarrow> int \<Rightarrow> npfloat list \<Rightarrow> real list \<times> real list \<Rightarrow> npfloat list \<Rightarrow> real list \<Rightarrow> bool \<Rightarrow> int
   \<Rightarrow> py_error + (npfloat list \<times> npfloat)" where
  "phase_vel rt sec corrcoefs rotate_arr corrsum backas2 ind_band ind_surf =
     (case rt of
        [] \<Rightarrow> Inl IndexError
      | rt0 # _ \<Rightarrow>
          (let rt_SR = py_int (sampling_rate rt0);
               start_range = (if ind_band then ind_surf else 0)
           in (case phasv_loop rt0 rt_SR sec corrcoefs rotate_arr
                      (py_range start_range (int (length corrcoefs))) of
                 Inl e \<Rightarrow> Inl e
               | Inr phasv \<Rightarrow>
                   (case estimated_backazimuth corrsum backas2 of
                      Inl e \<Rightarrow> Inl e
                    | Inr EBA \<Rightarrow> Inr (phasv, EBA)))))"

text \<open>
  The phase velocity of one window in the words of the specification: half the
  ratio of the largest absolute transverse acceleration to the largest absolute
  rotation rate of the window, scaled by 0.001 to km/s.
\<close>

definition phas_v_spec :: "real list \<Rightarrow> real list \<Rightarrow> real" where
  "phas_v_spec acc_window rot_window =
     0.5 * 0.001 * Max (set (map abs acc_window)) / Max (set (map abs rot_window))"

section \<open>Auxiliary definitions for the proofs\<close>

text \<open>
  The values a thresholded sum of correlation coefficients can take: a finite
  value that is not negative, or +inf.
\<close>

definition nonneg :: "npfloat \<Rightarrow> bool" where
  "nonneg x = (case x of Fin r \<Rightarrow> 0 \<le> r | PInf \<Rightarrow> True | _ \<Rightarrow> False)"


text \<open>
  Example inputs. A rotation trace of 70 samples at 1 Hz: five samples 0, thirty
  samples 1, thirty samples 2, five samples 9. A north component equal to it and
  silent east and vertical components. A stand-in for the rotation whose
  transverse component is the north component at 90 degrees and the east
  component at every other backazimuth; a stand-in for the correlation that is 1
  on equal windows and 0 otherwise. Between 5 s and 65 s there are two windows of
  30 s, and the largest sum of coefficients, 2, is reached at 90 degrees.
\<close>

definition ex_trace :: "string \<Rightarrow> real list \<Rightarrow> trace" where
  "ex_trace c xs = \<lparr>sampling_rate = 1, component = c, data = xs\<rparr>"

definition ex_data :: "real list" where
  "ex_data = replicate 5 0 @ replicate 30 1 @ replicate 30 2 @ replicate 5 9"

definition ex_rt :: stream where
  "ex_rt = [ex_trace ''Z'' ex_data]"

definition ex_ac :: stream where
  "ex_ac = [ex_trace ''E'' (replicate 70 0), ex_trace ''N'' ex_data, ex_trace ''Z'' (replicate 70 0)]"

definition ex_rotate_ne_rt :: "real list \<Rightarrow> real list \<Rightarrow> real \<Rightarrow> real list \<times> real list" where
  "ex_rotate_ne_rt n e ba = (if ba = 90 then (e, n) else (n, e))"

definition ex_xcorr :: "real list \<Rightarrow> real list \<Rightarrow> npfloat" where
  "ex_xcorr a b = (if a = b then Fin 1 else Fin 0)"

section \<open>Python values: lemmas\<close>

lemma py_slice_prefix: "0 \<le> k \<Longrightarrow> py_slice xs 0 k = take (nat k) xs"
  by (simp add: py_slice_def slice_bound_def min_def)

lemma py_slice_window:
  "0 \<le> lo \<Longrightarrow> lo \<le> hi \<Longrightarrow> py_slice xs lo hi = take (nat hi - nat lo) (drop (nat lo) xs)"
  by (cases "nat lo \<le> length xs") (simp_all add: py_slice_def slice_bound_def min_def Let_def)

lemma py_slice_nat:
  "A \<le> B \<Longrightarrow> py_slice xs (int A) (int B) = take (B - A) (drop A xs)"
  using py_slice_window [of "int A" "int B" xs] by simp

lemma py_min_fold: "foldl (\<lambda>m y. if y < m then y else m) x xs = Min (insert x (set xs))"
proof (induction xs arbitrary: x)
  case Nil
  show ?case by simp
next
  case (Cons a xs)
  have f: "(if a < x then a else x) = min x a" by (auto simp: min_def)
  have "Min (insert (min x a) (set xs)) = Min (insert x (insert a (set xs)))"
    by (cases "xs = []") (simp_all add: min.assoc)
  then show ?case using Cons.IH [of "min x a"] by (simp add: f)
qed

lemma py_min_Min: "py_min xs = (if xs = [] then Inl ValueError else Inr (Min (set xs)))"
  by (cases xs) (simp_all add: py_min_fold)

lemma py_range_nat: "py_range 0 (int n) = map int [0..<n]"
proof -
  have "[0..int n - 1] = map int [0..<n]"
    by (induction n) (simp_all add: upto_rec2)
  then show ?thesis by (simp add: py_range_def)
qed

section \<open>Selecting a component: lemmas\<close>

lemma upper_char_cases:
  "(upper_char c = CHR ''N'') = (c = CHR ''N'' \<or> c = CHR ''n'')"
  "(upper_char c = CHR ''E'') = (c = CHR ''E'' \<or> c = CHR ''e'')"
  "(upper_char c = CHR ''1'') = (c = CHR ''1'')"
  "(upper_char c = CHR ''2'') = (c = CHR ''2'')"
  by (auto simp: upper_char_def)

lemma upper_letter:
  "(upper s = ''N'') = (s \<in> {''N'', ''n''})"
  "(upper s = ''E'') = (s \<in> {''E'', ''e''})"
  "(upper s = ''1'') = (s \<in> {''1''})"
  "(upper s = ''2'') = (s \<in> {''2''})"
  by (cases s; auto simp: upper_def upper_char_cases)+

lemma upper_patterns:
  "upper ''N'' = ''N''" "upper ''E'' = ''E''" "upper ''1'' = ''1''" "upper ''2'' = ''2''"
  by (simp_all add: upper_def upper_char_def)

lemma select_north:
  "select st (snd (station_components station))
     = filter (\<lambda>tr. component tr \<in> (if station = ''RLAS'' then {''N'', ''n''} else {''2''})) st"
  by (simp add: select_def station_components_def upper_patterns upper_letter)


section \<open>Properties of the distance classification\<close>

text \<open>
  C5. For every great-circle distance d in metres, is_local answers 'close' exactly
  when 0.001 d / 111.11 < 3.0, 'local' exactly when 3.0 <= 0.001 d / 111.11 < 10.0
  and 'non-local' exactly when 0.001 d / 111.11 >= 10.0. Both tests are strict, so
  the boundary distances 333330 m (quotient 3.0) and 1111100 m (quotient 10.0) fall
  into the larger class. The quotient is taken in exact arithmetic.
\<close>

theorem is_local_classes:
  "(is_local (d, az, ba) = ''close'') = (0.001 * d / 111.11 < 3.0)
   \<and> (is_local (d, az, ba) = ''local'') = (3.0 \<le> 0.001 * d / 111.11 \<and> 0.001 * d / 111.11 < 10.0)
   \<and> (is_local (d, az, ba) = ''non-local'') = (10.0 \<le> 0.001 * d / 111.11)
   \<and> is_local (333330, az, ba) = ''local''
   \<and> is_local (1111100, az, ba) = ''non-local''"
  by (auto simp: is_local_def)

section \<open>Properties of the arrival times\<close>

lemma set_family_times:
  "set (family_times names tt) = snd ` {a \<in> set tt. fst a \<in> set names}"
  by (induction tt) auto

lemma two_minima:
  "(case (if A then Inl ValueError else Inr a) of
      Inl e \<Rightarrow> Inl e
    | Inr x \<Rightarrow> (case (if B then Inl ValueError else Inr b) of
                  Inl e \<Rightarrow> Inl e
                | Inr y \<Rightarrow> Inr (f x, g y)))
   = (if A \<or> B then Inl ValueError else Inr (f a, g b))"
  by simp

lemma ps_arrival_times_sets:
  "ps_arrival_times rnd get_travel_times distance depth init_sec =
     (if snd ` {a \<in> set (get_travel_times (rnd (rnd (rnd 0.001 * distance) / rnd 111.11)) depth). fst a \<in> set pwave_list} = {}
         \<or> snd ` {a \<in> set (get_travel_times (rnd (rnd (rnd 0.001 * distance) / rnd 111.11)) depth). fst a \<in> set swave_list} = {}
      then Inl ValueError
      else Inr (of_int \<lfloor>rnd (init_sec + Min (snd ` {a \<in> set (get_travel_times (rnd (rnd (rnd 0.001 * distance) / rnd 111.11)) depth). fst a \<in> set pwave_list}))\<rfloor>,
                of_int \<lfloor>rnd (init_sec + Min (snd ` {a \<in> set (get_travel_times (rnd (rnd (rnd 0.001 * distance) / rnd 111.11)) depth). fst a \<in> set swave_list}))\<rfloor>))"
proof -
  have e: "(xs = []) = (set xs = {})" for xs :: "real list" by simp
  show ?thesis
    unfolding ps_arrival_times_def Let_def py_min_Min e set_family_times
    by (rule two_minima)
qed

text \<open>
  C8. ps_arrival_times keeps, of the arrivals the travel-time model returns for the
  distance in degrees (the float value of 0.001 distance / 111.11) and the depth,
  the travel times of the phases named in the P family and of those named in the
  S family. When a family has no matching phase the call fails: \<open>min\<close> of the
  empty list raises ValueError, which is the failure the specification calls
  NoArrivalFound, and no default is returned. Otherwise it returns, for each
  family, the floor of the float sum of init_sec and the least travel time of the
  family.
\<close>

theorem ps_arrival_times_families:
  "ps_arrival_times rnd get_travel_times distance depth init_sec =
     (let tt = get_travel_times (rnd (rnd (rnd 0.001 * distance) / rnd 111.11)) depth;
          P = snd ` {a \<in> set tt. fst a \<in>
                 {''P'', ''p'', ''Pdiff'', ''PKiKP'', ''PKIKP'', ''PP'', ''Pb'', ''Pn'', ''Pg''}};
          S = snd ` {a \<in> set tt. fst a \<in>
                 {''S'', ''s'', ''Sdiff'', ''SKiKS'', ''SKIKS'', ''SS'', ''Sb'', ''Sn'', ''Sg''}}
      in if P = {} \<or> S = {} then Inl ValueError
         else Inr (of_int \<lfloor>rnd (init_sec + Min P)\<rfloor>, of_int \<lfloor>rnd (init_sec + Min S)\<rfloor>))"
proof -
  have p: "{''P'', ''p'', ''Pdiff'', ''PKiKP'', ''PKIKP'', ''PP'', ''Pb'', ''Pn'', ''Pg''} = set pwave_list"
    unfolding pwave_list_def by (simp only: list.set)
  have s: "{''S'', ''s'', ''Sdiff'', ''SKiKS'', ''SKIKS'', ''SS'', ''Sb'', ''Sn'', ''Sg''} = set swave_list"
    unfolding swave_list_def by (simp only: list.set)
  show ?thesis
    unfolding Let_def p s by (rule ps_arrival_times_sets)
qed

section \<open>Properties of the resampling policy\<close>

lemma truncate_1800_take:
  assumes "rt \<noteq> []" and "0 \<le> rnd (1800 * sampling_rate (hd rt))"
  shows "truncate_1800 rnd rt ac =
           Inr (map (\<lambda>trr. trr\<lparr>data := take (nat \<lfloor>rnd (1800 * sampling_rate (hd rt))\<rfloor>) (data trr)\<rparr>) rt,
                map (\<lambda>trr. trr\<lparr>data := take (nat \<lfloor>rnd (1800 * sampling_rate (hd rt))\<rfloor>) (data trr)\<rparr>) ac)"
proof -
  obtain rt0 rest where rt: "rt = rt0 # rest" using assms(1) by (cases rt) auto
  have k: "0 \<le> py_int (rnd (1800 * sampling_rate rt0))"
    using assms(2) by (simp add: rt py_int_def)
  have i: "py_int (rnd (1800 * sampling_rate rt0)) = \<lfloor>rnd (1800 * sampling_rate rt0)\<rfloor>"
    using assms(2) by (simp add: rt py_int_def)
  show ?thesis
    unfolding truncate_1800_def rt using k by (simp add: py_slice_prefix i)
qed

text \<open>
  C9. resample applies the distance-class policy. For 'close' and for 'local' every
  channel of the rotation and of the acceleration stream is cut to its first
  1800 x sampling rate samples: the whole part of the float product of 1800 and
  the rate of the rotation trace. The P-coda copies are these cut channels, not
  decimated, and the main copies are the cut channels decimated by 2; sec and
  cutoff are 3 and 4.0 Hz for 'close', 5 and 2.0 Hz for 'local'. For 'non-local'
  nothing is cut, the P-coda copies are the channels decimated by 2 and the main
  copies the channels decimated by 4, with sec 120 and cutoff 1.0 Hz. The P-coda
  highpass cutoff is 0.5 Hz in every class. The bundle has a rotation trace, and
  the product is not negative.
\<close>

theorem resample_policy:
  assumes "rt \<noteq> []" and "0 \<le> rnd (1800 * sampling_rate (hd rt))"
  shows "resample rnd decimate ''close'' baz rt ac =
           Inr (map (decimate 2) (map (\<lambda>trr. trr\<lparr>data := take (nat \<lfloor>rnd (1800 * sampling_rate (hd rt))\<rfloor>) (data trr)\<rparr>) rt),
                map (decimate 2) (map (\<lambda>trr. trr\<lparr>data := take (nat \<lfloor>rnd (1800 * sampling_rate (hd rt))\<rfloor>) (data trr)\<rparr>) ac),
                map (\<lambda>trr. trr\<lparr>data := take (nat \<lfloor>rnd (1800 * sampling_rate (hd rt))\<rfloor>) (data trr)\<rparr>) rt,
                map (\<lambda>trr. trr\<lparr>data := take (nat \<lfloor>rnd (1800 * sampling_rate (hd rt))\<rfloor>) (data trr)\<rparr>) ac,
                3, 4.0, 0.5)
       \<and> resample rnd decimate ''local'' baz rt ac =
           Inr (map (decimate 2) (map (\<lambda>trr. trr\<lparr>data := take (nat \<lfloor>rnd (1800 * sampling_rate (hd rt))\<rfloor>) (data trr)\<rparr>) rt),
                map (decimate 2) (map (\<lambda>trr. trr\<lparr>data := take (nat \<lfloor>rnd (1800 * sampling_rate (hd rt))\<rfloor>) (data trr)\<rparr>) ac),
                map (\<lambda>trr. trr\<lparr>data := take (nat \<lfloor>rnd (1800 * sampling_rate (hd rt))\<rfloor>) (data trr)\<rparr>) rt,
                map (\<lambda>trr. trr\<lparr>data := take (nat \<lfloor>rnd (1800 * sampling_rate (hd rt))\<rfloor>) (data trr)\<rparr>) ac,
                5, 2.0, 0.5)
       \<and> resample rnd decimate ''non-local'' baz rt ac =
           Inr (map (decimate 4) rt, map (decimate 4) ac,
                map (decimate 2) rt, map (decimate 2) ac, 120, 1.0, 0.5)"
  using truncate_1800_take [of rt rnd ac, OF assms]
  by (simp add: resample_def)

text \<open>
  The policy at a rotation trace of 1/512 Hz with five samples and one
  acceleration trace, with exact products and a decimation that keeps every trace
  as it is: 1800 / 512 = 3.515625, three samples are kept.
\<close>

theorem resample_policy_witness:
  "[\<lparr>sampling_rate = 1 / 512, component = ''Z'', data = [1, 2, 3, 4, 5]\<rparr>] \<noteq> []
   \<and> 0 \<le> (\<lambda>x. x) (1800 * sampling_rate
                (hd [\<lparr>sampling_rate = 1 / 512, component = ''Z'', data = [1, 2, 3, 4, 5]\<rparr>]))
   \<and> resample (\<lambda>x. x) (\<lambda>factor tr. tr) ''close'' (0, 0, 0)
        [\<lparr>sampling_rate = 1 / 512, component = ''Z'', data = [1, 2, 3, 4, 5]\<rparr>]
        [\<lparr>sampling_rate = 1 / 512, component = ''N'', data = [6, 7, 8, 9]\<rparr>]
      = Inr ([\<lparr>sampling_rate = 1 / 512, component = ''Z'', data = [1, 2, 3]\<rparr>],
             [\<lparr>sampling_rate = 1 / 512, component = ''N'', data = [6, 7, 8]\<rparr>],
             [\<lparr>sampling_rate = 1 / 512, component = ''Z'', data = [1, 2, 3]\<rparr>],
             [\<lparr>sampling_rate = 1 / 512, component = ''N'', data = [6, 7, 8]\<rparr>],
             3, 4.0, 0.5)"
proof -
  have f: "nat \<lfloor>1800 * (1 / 512 :: real)\<rfloor> = 3" by simp
  show ?thesis
    using resample_policy
      [of "[\<lparr>sampling_rate = 1 / 512, component = ''Z'', data = [1, 2, 3, 4, 5]\<rparr>]"
          "\<lambda>x. x" "\<lambda>factor tr. tr" "(0, 0, 0)"
          "[\<lparr>sampling_rate = 1 / 512, component = ''N'', data = [6, 7, 8, 9]\<rparr>]"]
    by (simp add: f)
qed

section \<open>Properties of the windowed correlation\<close>

text \<open>
  C6 as stated fails at a sampling rate that is not a whole number: the function
  reads the rate with \<open>int\<close>. Seven rotation samples at 2.5 Hz in windows of one
  second give floor(7 / (2.5 x 1)) = 2 by the claim; Get_corrcoefs returns three
  coefficients, from windows of two samples.
\<close>

theorem Get_corrcoefs_windows_counterexample:
  "Get_corrcoefs (\<lambda>a b. Fin (hd a * hd b))
     \<lparr>sampling_rate = 5 / 2, component = ''Z'', data = [1, 2, 3, 4, 5, 6, 7]\<rparr>
     [1, 2, 3, 4, 5, 6, 7]
     [\<lparr>sampling_rate = 5 / 2, component = ''N'', data = [7, 6, 5, 4, 3, 2, 1]\<rparr>]
     [7, 6, 5, 4, 3, 2, 1] 1 ''RLAS''
     = Inr ([Fin 7, Fin 15, Fin 15], [0.75, 0.75, 0.75, 0.75])
   \<and> \<lfloor>real (length [1, 2, 3, 4, 5, 6, 7 :: real]) / (5 / 2 * 1)\<rfloor> = (2 :: int)"
  by (simp add: Get_corrcoefs_def py_int_def select_def station_components_def
      upper_patterns py_range_def upto.simps py_slice_def slice_bound_def numeral_eq_Suc)

text \<open>
  C6, as the code has it. Let r be the rotation sampling rate cut to a whole
  number (\<open>int\<close> of the rate, the rate itself when it is whole), at least 1, and
  sec the window length, at least 1. For a rotation array of n samples
  Get_corrcoefs returns floor(n / (r sec)) coefficients. The coefficient of
  window i is the zero-lag coefficient of the i-th block of r sec rotation
  samples, a full block, and the i-th block of c sec samples of the rotated
  acceleration, c the whole part of the sampling rate of the first trace of the
  north component; the samples after the last full rotation block are dropped.
\<close>

theorem Get_corrcoefs_windows:
  assumes "1 \<le> sampling_rate rotra" and "0 < s"
    and "filter (\<lambda>tr. component tr \<in> (if station = ''RLAS'' then {''N'', ''n''} else {''2''})) acstr
           = trN # others"
    and "0 \<le> sampling_rate trN"
  shows "\<exists>corrcoefs thres.
           Get_corrcoefs xcorr rotra rodat acstr rotate_array (int s) station = Inr (corrcoefs, thres)
           \<and> int (length corrcoefs)
               = \<lfloor>real (length rodat) / (real_of_int \<lfloor>sampling_rate rotra\<rfloor> * real s)\<rfloor>
           \<and> (\<forall>i < length corrcoefs.
                 corrcoefs ! i =
                   xcorr (take (nat \<lfloor>sampling_rate rotra\<rfloor> * s)
                               (drop (nat \<lfloor>sampling_rate rotra\<rfloor> * s * i) rodat))
                         (take (nat \<lfloor>sampling_rate trN\<rfloor> * s)
                               (drop (nat \<lfloor>sampling_rate trN\<rfloor> * s * i) rotate_array))
                 \<and> length (take (nat \<lfloor>sampling_rate rotra\<rfloor> * s)
                                 (drop (nat \<lfloor>sampling_rate rotra\<rfloor> * s * i) rodat))
                     = nat \<lfloor>sampling_rate rotra\<rfloor> * s)"
proof -
  define r where "r = nat \<lfloor>sampling_rate rotra\<rfloor>"
  define c where "c = nat \<lfloor>sampling_rate trN\<rfloor>"
  have one: "1 \<le> \<lfloor>sampling_rate rotra\<rfloor>" using assms(1) by linarith
  have cI: "py_int (sampling_rate trN) = int c"
    using assms(4) by (simp add: c_def py_int_def)
  have rI: "py_int (sampling_rate rotra) = int r"
    using assms(1) one by (simp add: r_def py_int_def)
  have fr: "\<lfloor>sampling_rate rotra\<rfloor> = int r" using one by (simp add: r_def)
  have sel: "select acstr (snd (station_components station)) = trN # others"
    unfolding select_north by (rule assms(3))
  have pos: "0 < r * s" using one assms(2) by (simp add: r_def)
  define n where "n = length rodat div (r * s)"
  have rng: "py_range 0 (int (length rodat) div (int r * int s)) = map int [0..<n]"
  proof -
    have "int (length rodat) div (int r * int s) = int n"
      by (simp add: n_def zdiv_int)
    then show ?thesis by (simp only: py_range_nat)
  qed
  have win: "py_slice xs (int k * int s * int i) (int k * int s * (int i + 1))
               = take (k * s) (drop (k * s * i) xs)" for xs :: "real list" and k i
  proof -
    have a: "int k * int s * int i = int (k * s * i)" by simp
    have b: "int k * int s * (int i + 1) = int (k * s * i + k * s)"
      by (simp add: algebra_simps)
    have "py_slice xs (int (k * s * i)) (int (k * s * i + k * s))
            = take (k * s * i + k * s - k * s * i) (drop (k * s * i) xs)"
      by (rule py_slice_nat) simp
    then have "py_slice xs (int (k * s * i)) (int (k * s * i + k * s))
            = take (k * s) (drop (k * s * i) xs)"
      by (simp only: add_diff_cancel_left')
    then show ?thesis by (simp only: a b)
  qed
  define cc where "cc = map (\<lambda>i. xcorr (take (r * s) (drop (r * s * i) rodat))
                                      (take (c * s) (drop (c * s * i) rotate_array))) [0..<n]"
  have res: "Get_corrcoefs xcorr rotra rodat acstr rotate_array (int s) station
               = Inr (cc, replicate (length cc + 1) 0.75)"
    using pos by (simp add: Get_corrcoefs_def sel cI rI rng win cc_def comp_def)
  have len: "int (length cc) = \<lfloor>real (length rodat) / (real_of_int (int r) * real s)\<rfloor>"
  proof -
    have "\<lfloor>real (length rodat) / real (r * s)\<rfloor> = int (length rodat div (r * s))"
      by (rule floor_divide_of_nat_eq)
    then show ?thesis by (simp add: cc_def n_def)
  qed
  have full: "length (take (r * s) (drop (r * s * i) rodat)) = r * s" if "i < n" for i
  proof -
    have "Suc i \<le> n" using that by simp
    then have "Suc i * (r * s) \<le> n * (r * s)" by (rule mult_le_mono1)
    also have "\<dots> \<le> length rodat" by (simp add: n_def)
    finally show ?thesis by (simp add: algebra_simps)
  qed
  show ?thesis
    unfolding fr r_def [symmetric] c_def [symmetric] using res len full by (auto simp: cc_def)
qed

text \<open>
  Seven rotation samples at 2.5 Hz in windows of one second: r = 2, three full
  windows of two samples, the seventh sample is dropped.
\<close>

theorem Get_corrcoefs_windows_witness:
  "1 \<le> sampling_rate \<lparr>sampling_rate = 5 / 2, component = ''Z'', data = [1, 2, 3, 4, 5, 6, 7]\<rparr>
   \<and> (0::nat) < 1
   \<and> filter (\<lambda>tr. component tr \<in> (if ''RLAS'' = ''RLAS'' then {''N'', ''n''} else {''2''}))
        [\<lparr>sampling_rate = 5 / 2, component = ''n'', data = [7, 6, 5, 4, 3, 2, 1]\<rparr>]
       = [\<lparr>sampling_rate = 5 / 2, component = ''n'', data = [7, 6, 5, 4, 3, 2, 1]\<rparr>]
   \<and> 0 \<le> sampling_rate \<lparr>sampling_rate = 5 / 2, component = ''n'', data = [7, 6, 5, 4, 3, 2, 1]\<rparr>
   \<and> Get_corrcoefs (\<lambda>a b. Fin (hd a * hd b))
         \<lparr>sampling_rate = 5 / 2, component = ''Z'', data = [1, 2, 3, 4, 5, 6, 7]\<rparr>
         [1, 2, 3, 4, 5, 6, 7]
         [\<lparr>sampling_rate = 5 / 2, component = ''n'', data = [7, 6, 5, 4, 3, 2, 1]\<rparr>]
         [7, 6, 5, 4, 3, 2, 1] (int 1) ''RLAS''
       = Inr ([Fin 7, Fin 15, Fin 15], [0.75, 0.75, 0.75, 0.75])
   \<and> int (length [Fin 7, Fin 15, Fin 15 :: npfloat])
       = \<lfloor>real (length [1, 2, 3, 4, 5, 6, 7 :: real]) / (real_of_int \<lfloor>5 / 2 :: real\<rfloor> * real 1)\<rfloor>"
proof -
  have e: "Get_corrcoefs (\<lambda>a b. Fin (hd a * hd b))
         \<lparr>sampling_rate = 5 / 2, component = ''Z'', data = [1, 2, 3, 4, 5, 6, 7]\<rparr>
         [1, 2, 3, 4, 5, 6, 7]
         [\<lparr>sampling_rate = 5 / 2, component = ''n'', data = [7, 6, 5, 4, 3, 2, 1]\<rparr>]
         [7, 6, 5, 4, 3, 2, 1] (int 1) ''RLAS''
       = Inr ([Fin 7, Fin 15, Fin 15], [0.75, 0.75, 0.75, 0.75])"
    by (simp add: Get_corrcoefs_def py_int_def select_def station_components_def
        upper_patterns upper_def upper_char_def
        py_range_def upto.simps py_slice_def slice_bound_def numeral_eq_Suc)
  show ?thesis
    using e Get_corrcoefs_windows
      [of "\<lparr>sampling_rate = 5 / 2, component = ''Z'', data = [1, 2, 3, 4, 5, 6, 7]\<rparr>" 1
          "''RLAS''"
          "[\<lparr>sampling_rate = 5 / 2, component = ''n'', data = [7, 6, 5, 4, 3, 2, 1]\<rparr>]"
          "\<lparr>sampling_rate = 5 / 2, component = ''n'', data = [7, 6, 5, 4, 3, 2, 1]\<rparr>" "[]"
          "\<lambda>a b. Fin (hd a * hd b)" "[1, 2, 3, 4, 5, 6, 7]" "[7, 6, 5, 4, 3, 2, 1]"]
    by auto
qed

section \<open>Properties of the signal-to-noise ratio\<close>

text \<open>
  C4. The claim: sn_ratio returns the peak absolute amplitude of the whole trace
  over the mean absolute amplitude of the noise window, so that a noise floor of
  constant absolute amplitude n and a peak absolute amplitude p give p / n. The
  function takes the largest signed sample and the absolute value of the mean of
  the signed samples. At a trace sampled at 1 Hz with P arrival at 180 s, whose
  noise window (samples 0 to 79) holds 60 samples 1 and 20 samples -1 and is
  followed by the samples -5 and 2, the noise floor has absolute amplitude 1 and
  the peak absolute amplitude is 5, so the claim gives 5; sn_ratio returns
  2 / (40 / 80) = 4.
\<close>

theorem sn_ratio_signed_peak_over_abs_mean:
  "sn_ratio (replicate 60 1 @ replicate 20 (- 1) @ [- 5, 2]) 180 1 = Inr (Fin 4)
   \<and> sn_ratio_spec (replicate 60 1 @ replicate 20 (- 1) @ [- 5, 2]) 180 1 = 5"
proof -
  have r: "py_round 180 = 180" by (simp add: py_round_def)
  have i: "py_int 1 = 1" by (simp add: py_int_def)
  have m: "py_max (replicate 60 1 @ replicate 20 (- 1) @ [- 5, 2]) = Inr 2"
    by (simp add: numeral_eq_Suc)
  have a: "sn_ratio (replicate 60 1 @ replicate 20 (- 1) @ [- 5, 2]) 180 1 = Inr (Fin 4)"
    unfolding sn_ratio_def Let_def r i m
    by (simp add: py_slice_prefix np_mean_def np_div_def sum_list_replicate)
  have b: "sn_ratio_spec (replicate 60 1 @ replicate 20 (- 1) @ [- 5, 2]) 180 1 = 5"
    by (simp add: sn_ratio_spec_def py_slice_prefix sum_list_replicate)
  show ?thesis using a b by simp
qed

section \<open>Float comparisons and reductions: lemmas\<close>

lemma linspace_grid: "np_linspace 0 359 360 = map real [0..<360]"
proof -
  have "[0..<360] = [0..<359] @ [359::nat]"
    using upt_Suc_append [of 0 359] by simp
  then have "map real [0..<360] = map real [0..<359] @ [359]" by simp
  then show ?thesis by (simp add: np_linspace_def)
qed

lemma argmax_loop_bound:
  "max_ind < i \<Longrightarrow> argmax_loop mp max_ind i xs < i + length xs"
proof (induction xs arbitrary: mp max_ind i)
  case Nil
  then show ?case by simp
next
  case (Cons x xs)
  have a: "argmax_loop mp max_ind (Suc i) xs < Suc i + length xs"
    using Cons.prems by (intro Cons.IH) simp
  have b: "argmax_loop x i (Suc i) xs < Suc i + length xs"
    by (intro Cons.IH) simp
  show ?case using a b by simp
qed

lemma np_argmax_bound: "np_argmax xs = Inr k \<Longrightarrow> k < length xs"
  using argmax_loop_bound [of 0 1] by (cases xs) (auto split: if_splits)

lemma np_argmax_returns: "xs \<noteq> [] \<Longrightarrow> \<exists>k. np_argmax xs = Inr k"
  by (cases xs) simp_all

lemma nonneg_corradj: "nonneg (corradj c)"
  by (cases c) (simp_all add: corradj_def nonneg_def)

lemma nonneg_add:
  "(\<And>x. 0 \<le> x \<Longrightarrow> 0 \<le> rnd x) \<Longrightarrow> nonneg a \<Longrightarrow> nonneg b \<Longrightarrow> nonneg (np_add rnd a b)"
  by (cases a; cases b) (simp_all add: nonneg_def)

lemma nonneg_foldl:
  "(\<And>x. 0 \<le> x \<Longrightarrow> 0 \<le> rnd x) \<Longrightarrow> nonneg a \<Longrightarrow> \<forall>x \<in> set xs. nonneg x
     \<Longrightarrow> nonneg (foldl (np_add rnd) a xs)"
  by (induction xs arbitrary: a) (simp_all add: nonneg_add)

lemma nonneg_py_sum:
  assumes "\<And>x. 0 \<le> x \<Longrightarrow> 0 \<le> rnd x"
  shows "nonneg (py_sum rnd (map corradj row))"
proof -
  have "nonneg (Fin 0)" by (simp add: nonneg_def)
  moreover have "\<forall>x \<in> set (map corradj row). nonneg x" by (simp add: nonneg_corradj)
  ultimately show ?thesis unfolding py_sum_def using assms by (intro nonneg_foldl)
qed

lemma np_le_refl: "nonneg a \<Longrightarrow> np_le a a"
  by (cases a) (simp_all add: nonneg_def)

lemma np_le_trans: "np_le a b \<Longrightarrow> np_le b c \<Longrightarrow> np_le a c"
  by (cases a; cases b; cases c) simp_all

lemma np_le_total: "nonneg a \<Longrightarrow> nonneg b \<Longrightarrow> np_le a b \<or> np_le b a"
  by (cases a; cases b) (auto simp: nonneg_def)

lemma np_gt_iff: "nonneg a \<Longrightarrow> nonneg b \<Longrightarrow> np_gt a b = (\<not> np_le a b)"
  by (cases a; cases b) (simp_all add: nonneg_def)

lemma np_le_zero: "nonneg a \<Longrightarrow> np_le a (Fin 0) \<Longrightarrow> a = Fin 0"
  by (cases a) (simp_all add: nonneg_def)

lemma np_gt_zero: "nonneg a \<Longrightarrow> a \<noteq> Fin 0 \<Longrightarrow> np_gt a (Fin 0)"
  by (cases a) (simp_all add: nonneg_def)

lemma nonneg_not_NaN: "nonneg a \<Longrightarrow> a \<noteq> NaN"
  by (cases a) (simp_all add: nonneg_def)

lemma np_eq_zero: "np_eq a 0 = (a = Fin 0)"
  by (cases a) simp_all

lemma py_max_fold_np:
  assumes "nonneg x" and "\<forall>y \<in> set xs. nonneg y"
  shows "foldl (\<lambda>m y. if np_gt y m then y else m) x xs \<in> set (x # xs)
         \<and> (\<forall>y \<in> set (x # xs). np_le y (foldl (\<lambda>m y. if np_gt y m then y else m) x xs))"
  using assms
proof (induction xs arbitrary: x)
  case Nil
  then show ?case by (simp add: np_le_refl)
next
  case (Cons a xs)
  let ?x' = "if np_gt a x then a else x"
  have n: "nonneg ?x'" using Cons.prems by simp
  have ih: "foldl (\<lambda>m y. if np_gt y m then y else m) ?x' xs \<in> set (?x' # xs)
         \<and> (\<forall>y \<in> set (?x' # xs). np_le y (foldl (\<lambda>m y. if np_gt y m then y else m) ?x' xs))"
    using Cons.prems n by (intro Cons.IH) simp_all
  have xa: "np_le x ?x' \<and> np_le a ?x'"
    using Cons.prems np_le_total [of a x] by (auto simp: np_gt_iff np_le_refl)
  show ?case using ih xa by (auto intro: np_le_trans)
qed

lemma py_max_np_nonneg:
  assumes "xs \<noteq> []" and "\<forall>y \<in> set xs. nonneg y"
  shows "\<exists>m. py_max_np xs = Inr m \<and> m \<in> set xs \<and> (\<forall>y \<in> set xs. np_le y m)"
proof -
  obtain x rest where xs: "xs = x # rest" using assms(1) by (cases xs) auto
  show ?thesis
    using py_max_fold_np [of x rest] assms(2) unfolding xs by simp
qed

lemma argmax_loop_max:
  assumes "\<forall>y \<in> set xs. nonneg y" and "nonneg mp" and "max_ind < length pre"
    and "pre ! max_ind = mp" and "\<forall>y \<in> set pre. np_le y mp"
  shows "\<forall>y \<in> set (pre @ xs). np_le y ((pre @ xs) ! argmax_loop mp max_ind (length pre) xs)"
  using assms
proof (induction xs arbitrary: mp max_ind pre)
  case Nil
  then show ?case by simp
next
  case (Cons x xs)
  have nx: "nonneg x" and nxs: "\<forall>y \<in> set xs. nonneg y" using Cons.prems(1) by simp_all
  show ?case
  proof (cases "np_le x mp")
    case True
    have "\<forall>y \<in> set ((pre @ [x]) @ xs).
            np_le y (((pre @ [x]) @ xs) ! argmax_loop mp max_ind (length (pre @ [x])) xs)"
      using nxs Cons.prems(2-5) True
      by (intro Cons.IH) (simp_all add: nth_append)
    then show ?thesis using True by simp
  next
    case False
    have le: "np_le mp x" using np_le_total [OF nx Cons.prems(2)] False by simp
    have "\<forall>y \<in> set ((pre @ [x]) @ xs).
            np_le y (((pre @ [x]) @ xs) ! argmax_loop x (length pre) (length (pre @ [x])) xs)"
      using nxs nx le Cons.prems(5)
      by (intro Cons.IH) (auto simp: nth_append np_le_refl intro: np_le_trans)
    then show ?thesis using False nonneg_not_NaN [OF nx] by simp
  qed
qed

lemma np_argmax_nonneg:
  assumes "np_argmax xs = Inr k" and "\<forall>y \<in> set xs. nonneg y"
  shows "k < length xs \<and> (\<forall>j < length xs. np_le (xs ! j) (xs ! k))"
proof -
  obtain x rest where xs: "xs = x # rest" using assms(1) by (cases xs) auto
  have nx: "nonneg x" using assms(2) by (simp add: xs)
  have k: "k = argmax_loop x 0 (length [x]) rest"
    using assms(1) nonneg_not_NaN [OF nx] by (simp add: xs)
  have "\<forall>y \<in> set ([x] @ rest). np_le y (([x] @ rest) ! argmax_loop x 0 (length [x]) rest)"
    using assms(2) nx by (intro argmax_loop_max) (simp_all add: xs np_le_refl)
  then have "\<forall>y \<in> set xs. np_le y (xs ! k)" by (simp add: xs k)
  then show ?thesis using np_argmax_bound [OF assms(1)] by simp
qed

section \<open>Properties of the backazimuth estimation\<close>

lemma backas_est_Inr:
  assumes "backas_est rnd xcorr rotate_ne_rt rt ac min_sw max_lwf station = Inr (corrsum, backas2, mx, best)"
  shows "\<exists>rt_SR rt2 acn2 ace2.
           backas_est_cut rnd rt ac min_sw max_lwf station = Inr (rt_SR, rt2, acn2, ace2)
           \<and> backas2 = map real [0..<360]
           \<and> corrsum = map (\<lambda>row. py_sum rnd (map corradj row))
                            (corrbaz2_rows xcorr rotate_ne_rt rt_SR 30 rt2 acn2 ace2 backas2)
           \<and> 0 < int (length rt2) div (rt_SR * 30)"
  using assms unfolding backas_est_def Let_def
  by (auto simp: linspace_grid py_int_def split: sum.splits prod.splits if_splits)

lemma length_corrbaz2_rows:
  "length (corrbaz2_rows xcorr rotate_ne_rt rt_SR sec2 rt2 acn2 ace2 backas2) = length backas2"
  by (simp add: corrbaz2_rows_def)

lemma estimated_backazimuth_nonneg:
  assumes "estimated_backazimuth corrsum backas2 = Inr EBA"
    and "\<forall>y \<in> set corrsum. nonneg y"
  shows "((\<forall>j < length corrsum. corrsum ! j = Fin 0) \<longrightarrow> EBA = NaN)
         \<and> ((\<exists>j < length corrsum. corrsum ! j \<noteq> Fin 0) \<longrightarrow>
              (\<exists>k < length corrsum. k < length backas2 \<and> EBA = Fin (backas2 ! k)
                 \<and> (\<forall>j < length corrsum. np_le (corrsum ! j) (corrsum ! k))
                 \<and> np_gt (corrsum ! k) (Fin 0)))"
proof -
  have ne: "corrsum \<noteq> []"
    using assms(1) by (auto simp: estimated_backazimuth_def)
  obtain m where m: "py_max_np corrsum = Inr m" "m \<in> set corrsum" "\<forall>y \<in> set corrsum. np_le y m"
    using py_max_np_nonneg [OF ne assms(2)] by blast
  have nm: "nonneg m" using m(2) assms(2) by blast
  show ?thesis
  proof (cases "m = Fin 0")
    case True
    have "EBA = NaN" using assms(1) m(1) True by (simp add: estimated_backazimuth_def)
    moreover have "corrsum ! j = Fin 0" if "j < length corrsum" for j
    proof -
      have "nonneg (corrsum ! j)" "np_le (corrsum ! j) (Fin 0)"
        using that assms(2) m(3) True by simp_all
      then show ?thesis by (rule np_le_zero)
    qed
    ultimately show ?thesis by simp
  next
    case False
    obtain j0 where j0: "j0 < length corrsum" "corrsum ! j0 = m"
      using m(2) by (auto simp: in_set_conv_nth)
    obtain k where k: "np_argmax corrsum = Inr k" using np_argmax_returns [OF ne] by blast
    have kk: "k < length corrsum" "\<forall>j < length corrsum. np_le (corrsum ! j) (corrsum ! k)"
      using np_argmax_nonneg [OF k assms(2)] by simp_all
    have idx: "py_index backas2 (int k) = Inr (backas2 ! k) \<and> k < length backas2"
      using assms(1) m(1) False k
      by (auto simp: estimated_backazimuth_def np_eq_zero py_index_def split: sum.splits if_splits)
    have eba: "EBA = Fin (backas2 ! k)"
      using assms(1) m(1) False k idx by (simp add: estimated_backazimuth_def np_eq_zero)
    have "np_le m (corrsum ! k)" using kk(2) j0 by auto
    moreover have "nonneg (corrsum ! k)" using kk(1) assms(2) by simp
    ultimately have "corrsum ! k \<noteq> Fin 0"
      using nm False np_le_zero by auto
    then have "np_gt (corrsum ! k) (Fin 0)"
      using \<open>nonneg (corrsum ! k)\<close> by (intro np_gt_zero)
    moreover have "\<not> (\<forall>j < length corrsum. corrsum ! j = Fin 0)"
      using j0 False by auto
    ultimately show ?thesis using kk idx eba by auto
  qed
qed

lemma estimated_backazimuth_grid:
  assumes "estimated_backazimuth corrsum backas2 = Inr EBA" and "EBA \<noteq> NaN"
  shows "\<exists>k < length corrsum. k < length backas2 \<and> EBA = Fin (backas2 ! k)"
proof -
  obtain k where "np_argmax corrsum = Inr k" "py_index backas2 (int k) = Inr (backas2 ! k)"
      "k < length backas2" "EBA = Fin (backas2 ! k)"
    using assms
    by (auto simp: estimated_backazimuth_def py_index_def split: sum.splits if_splits)
  then show ?thesis using np_argmax_bound by blast
qed

lemma phase_vel_EBA:
  "phase_vel rt sec corrcoefs rotate_arr corrsum backas2 ind_band ind_surf = Inr (phasv, EBA)
   \<Longrightarrow> estimated_backazimuth corrsum backas2 = Inr EBA"
  by (auto simp: phase_vel_def Let_def split: list.splits sum.splits)




lemma nonneg_corrsum:
  "(\<And>x. 0 \<le> x \<Longrightarrow> 0 \<le> rnd x)
     \<Longrightarrow> \<forall>y \<in> set (map (\<lambda>row. py_sum rnd (map corradj row)) rows). nonneg y"
  by (simp add: nonneg_py_sum)


lemma py_slice_block:
  "py_slice xs (int r * 30 * int i) (int r * 30 * (int i + 1))
     = take (r * 30) (drop (r * 30 * i) xs)"
proof -
  have a: "int r * 30 * int i = int (r * 30 * i)" by simp
  have b: "int r * 30 * (int i + 1) = int (r * 30 * i + r * 30)"
    by (simp add: algebra_simps)
  have "py_slice xs (int (r * 30 * i)) (int (r * 30 * i + r * 30))
          = take (r * 30 * i + r * 30 - r * 30 * i) (drop (r * 30 * i) xs)"
    by (rule py_slice_nat) simp
  then have "py_slice xs (int (r * 30 * i)) (int (r * 30 * i + r * 30))
          = take (r * 30) (drop (r * 30 * i) xs)"
    by (simp only: add_diff_cancel_left')
  then show ?thesis by (simp only: a b)
qed

lemma corrbaz2_rows_nth:
  assumes "j < 360"
  shows "corrbaz2_rows xcorr rotate_ne_rt (int r) 30 rt2 acn2 ace2 (map real [0..<360]) ! j
           = map (\<lambda>i. xcorr (take (r * 30) (drop (r * 30 * i) rt2))
                            (take (r * 30) (drop (r * 30 * i)
                               (snd (rotate_ne_rt acn2 ace2 (real j))))))
                 [0..<length rt2 div (r * 30)]"
proof -
  have "int (length rt2) div (int r * 30) = int (length rt2 div (r * 30))"
    by (simp add: zdiv_int)
  then have rng: "py_range 0 (int (length rt2) div (int r * 30))
                    = map int [0..<length rt2 div (r * 30)]"
    by (simp only: py_range_nat)
  show ?thesis
    unfolding corrbaz2_rows_def rng using assms
    by (simp add: py_slice_block comp_def)
qed



text \<open>
  C10. Whenever the estimated backazimuth returned by phase_vel, for the scores
  and candidates of backas_est, is not nan, it is one of the whole degrees
  0, 1, ..., 359.
\<close>

theorem estimated_backazimuth_on_grid:
  assumes est: "backas_est rnd xcorr rotate_ne_rt rt ac min_sw max_lwf station = Inr (corrsum, backas2, mx, best)"
    and pv: "phase_vel rt' sec corrcoefs rotate_arr corrsum backas2 ind_band ind_surf = Inr (phasv, EBA)"
    and def: "EBA \<noteq> NaN"
  shows "\<exists>k < 360. EBA = Fin (real k)"
proof -
  have grid: "backas2 = map real [0..<360]"
    using backas_est_Inr [OF est] by auto
  obtain k where "k < length backas2" "EBA = Fin (backas2 ! k)"
    using estimated_backazimuth_grid [OF phase_vel_EBA [OF pv] def] by blast
  then show ?thesis by (auto simp: grid)
qed

lemma np_amax_returns: "xs \<noteq> [] \<Longrightarrow> \<exists>m. np_amax xs = Inr m"
  by (cases xs) simp_all

lemma backas_est_returns:
  assumes cut: "backas_est_cut rnd rt ac min_sw max_lwf station = Inr (rt_SR, rt2, acn2, ace2)"
    and win: "0 < int (length rt2) div (rt_SR * 30)"
    and len: "length acn2 = length ace2"
  shows "\<exists>mx best.
           backas_est rnd xcorr rotate_ne_rt rt ac min_sw max_lwf station
             = Inr (map (\<lambda>row. py_sum rnd (map corradj row))
                        (corrbaz2_rows xcorr rotate_ne_rt rt_SR 30 rt2 acn2 ace2 (map real [0..<360])),
                    map real [0..<360], mx, best)"
proof -
  let ?rows = "corrbaz2_rows xcorr rotate_ne_rt rt_SR 30 rt2 acn2 ace2 (map real [0..<360])"
  let ?sums = "map (\<lambda>row. py_sum rnd (map corradj row)) ?rows"
  have nz: "rt_SR * 30 \<noteq> 0" using win by (cases "rt_SR * 30 = 0") simp_all
  have l: "length ?rows = 360" by (simp add: length_corrbaz2_rows)
  then have "?sums \<noteq> []" by auto
  then obtain j where j: "np_argmax ?sums = Inr j" using np_argmax_returns by blast
  have jl: "j < 360" using np_argmax_bound [OF j] l by simp
  have b: "py_index (map real [0..<360]) (int j) = Inr (real j)"
    using jl by (simp add: py_index_def)
  have r: "py_index ?rows (py_int (real j)) = Inr (?rows ! j)"
    using jl l by (simp add: py_index_def py_int_def)
  have "py_range 0 (int (length rt2) div (rt_SR * 30)) \<noteq> []"
    using win by (simp add: py_range_def upto.simps)
  then have "?rows ! j \<noteq> []" using jl by (simp add: corrbaz2_rows_def)
  then obtain m where m: "np_amax (?rows ! j) = Inr m" using np_amax_returns by blast
  show ?thesis
    unfolding backas_est_def cut Let_def using nz win len j b r m
    by (simp add: linspace_grid py_int_def)
qed

lemma estimated_backazimuth_returns:
  assumes "corrsum \<noteq> []" and "length corrsum \<le> length backas2"
  shows "\<exists>E. estimated_backazimuth corrsum backas2 = Inr E"
proof -
  obtain x rest where xs: "corrsum = x # rest" using assms(1) by (cases corrsum) auto
  obtain k where k: "np_argmax corrsum = Inr k" using np_argmax_returns [OF assms(1)] by blast
  have "k < length backas2" using np_argmax_bound [OF k] assms(2) by simp
  then have "py_index backas2 (int k) = Inr (backas2 ! k)" by (simp add: py_index_def)
  then show ?thesis using k by (simp add: estimated_backazimuth_def xs)
qed

lemma ex_cut:
  "backas_est_cut (\<lambda>x. x) ex_rt ex_ac 5 65 ''RLAS''
     = Inr (1, replicate 30 1 @ replicate 30 2, replicate 30 1 @ replicate 30 2, replicate 60 0)"
proof -
  have s: "py_slice xs 5 65 = take 60 (drop 5 xs)" for xs :: "real list"
    using py_slice_window [of 5 65 xs] by simp
  show ?thesis
    by (simp add: backas_est_cut_def ex_rt_def ex_ac_def ex_trace_def ex_data_def
        station_components_def select_def upper_def upper_char_def py_int_def py_round_def s Let_def)
qed

lemma ex_row:
  assumes "k < 360"
  shows "corrbaz2_rows ex_xcorr ex_rotate_ne_rt 1 30 (replicate 30 1 @ replicate 30 2)
           (replicate 30 1 @ replicate 30 2) (replicate 60 0) (map real [0..<360]) ! k
         = (if k = 90 then [Fin 1, Fin 1] else [Fin 0, Fin 0])"
proof -
  have z: "replicate 30 (0::real) \<noteq> replicate 30 1" "replicate 30 (0::real) \<noteq> replicate 30 2"
    by (simp_all add: numeral_eq_Suc)
  have u: "[0..<2] = [0, Suc 0]" by (simp add: numeral_2_eq_2)
  show ?thesis
    using corrbaz2_rows_nth [OF assms, of ex_xcorr ex_rotate_ne_rt 1
        "replicate 30 1 @ replicate 30 2" "replicate 30 1 @ replicate 30 2" "replicate 60 0"] z
    by (simp add: ex_xcorr_def ex_rotate_ne_rt_def u)
qed

lemma ex_sum:
  assumes "k < 360"
  shows "map (\<lambda>row. py_sum (\<lambda>x. x) (map corradj row))
           (corrbaz2_rows ex_xcorr ex_rotate_ne_rt 1 30 (replicate 30 1 @ replicate 30 2)
              (replicate 30 1 @ replicate 30 2) (replicate 60 0) (map real [0..<360])) ! k
         = (if k = 90 then Fin 2 else Fin 0)"
  using assms ex_row [OF assms]
  by (simp add: length_corrbaz2_rows py_sum_def corradj_def)

lemma ex_phasv:
  "phasv_loop (ex_trace ''Z'' [2, 4]) 1 1 [Fin 0.5, Fin 0.8] ([], [6, 2]) (py_range 0 2)
     = Inr [NaN, Fin (1 / 4000)]"
  by (simp add: py_range_def upto.simps phas_v_def py_index_def ex_trace_def
      py_slice_def slice_bound_def np_div_def)

lemma ex_run:
  "\<exists>corrsum mx best.
     backas_est (\<lambda>x. x) ex_xcorr ex_rotate_ne_rt ex_rt ex_ac 5 65 ''RLAS''
       = Inr (corrsum, map real [0..<360], mx, best)
     \<and> phase_vel [ex_trace ''Z'' [2, 4]] 1 [Fin 0.5, Fin 0.8] ([], [6, 2])
         corrsum (map real [0..<360]) False 0 = Inr ([NaN, Fin (1 / 4000)], Fin 90)"
proof -
  let ?sums = "map (\<lambda>row. py_sum (\<lambda>x. x) (map corradj row))
           (corrbaz2_rows ex_xcorr ex_rotate_ne_rt 1 30 (replicate 30 1 @ replicate 30 2)
              (replicate 30 1 @ replicate 30 2) (replicate 60 0) (map real [0..<360]))"
  obtain mx best where est:
    "backas_est (\<lambda>x. x) ex_xcorr ex_rotate_ne_rt ex_rt ex_ac 5 65 ''RLAS''
       = Inr (?sums, map real [0..<360], mx, best)"
    using backas_est_returns [OF ex_cut, of ex_xcorr ex_rotate_ne_rt] by auto
  have l: "length ?sums = 360" by (simp add: length_corrbaz2_rows)
  then have ne: "?sums \<noteq> []" by auto
  obtain E where E: "estimated_backazimuth ?sums (map real [0..<360]) = Inr E"
    using estimated_backazimuth_returns [OF ne, of "map real [0..<360]"] l by auto
  have nn: "\<forall>y \<in> set ?sums. nonneg y" by (rule nonneg_corrsum) simp
  have "\<exists>j < length ?sums. ?sums ! j \<noteq> Fin 0"
    using ex_sum [of 90] l by (intro exI [of _ 90]) simp
  then obtain k where k: "k < 360" "E = Fin (map real [0..<360] ! k)"
      "\<forall>j < 360. np_le (?sums ! j) (?sums ! k)"
    using estimated_backazimuth_nonneg [OF E nn] l by auto
  have "np_le (?sums ! 90) (?sums ! k)" using k(3) by simp
  then have "k = 90" using ex_sum [of 90] ex_sum [OF k(1)] by (simp split: if_splits)
  then have "E = Fin 90" using k(2) by simp
  then have "phase_vel [ex_trace ''Z'' [2, 4]] 1 [Fin 0.5, Fin 0.8] ([], [6, 2])
         ?sums (map real [0..<360]) False 0 = Inr ([NaN, Fin (1 / 4000)], Fin 90)"
    using E ex_phasv by (simp add: phase_vel_def ex_trace_def py_int_def)
  then show ?thesis using est by blast
qed


text \<open>In the example the estimated backazimuth is the grid value 90.\<close>

theorem estimated_backazimuth_on_grid_witness:
  "\<exists>corrsum mx best.
     backas_est (\<lambda>x. x) ex_xcorr ex_rotate_ne_rt ex_rt ex_ac 5 65 ''RLAS''
         = Inr (corrsum, map real [0..<360], mx, best)
     \<and> phase_vel [ex_trace ''Z'' [2, 4]] 1 [Fin 0.5, Fin 0.8] ([], [6, 2])
         corrsum (map real [0..<360]) False 0 = Inr ([NaN, Fin (1 / 4000)], Fin 90)
     \<and> Fin 90 \<noteq> NaN
     \<and> (\<exists>k < 360. Fin 90 = Fin (real k))"
proof -
  obtain corrsum mx best where
    est: "backas_est (\<lambda>x. x) ex_xcorr ex_rotate_ne_rt ex_rt ex_ac 5 65 ''RLAS''
            = Inr (corrsum, map real [0..<360], mx, best)"
    and pv: "phase_vel [ex_trace ''Z'' [2, 4]] 1 [Fin 0.5, Fin 0.8] ([], [6, 2])
               corrsum (map real [0..<360]) False 0 = Inr ([NaN, Fin (1 / 4000)], Fin 90)"
    using ex_run by blast
  have d: "Fin 90 \<noteq> NaN" by simp
  show ?thesis using est pv d estimated_backazimuth_on_grid [OF est pv d] by blast
qed

section \<open>Properties of the phase velocities\<close>

lemma phasv_loop_Inr:
  "phasv_loop rt0 rt_SR sec corrcoefs rotate_arr idx = Inr vs \<Longrightarrow>
     length vs = length idx
     \<and> (\<forall>k < length idx. phas_v rt0 rt_SR sec corrcoefs rotate_arr (idx ! k) = Inr (vs ! k))"
proof (induction idx arbitrary: vs)
  case Nil
  then show ?case by simp
next
  case (Cons i idx)
  obtain v vs' where v: "phas_v rt0 rt_SR sec corrcoefs rotate_arr i = Inr v"
    and vs': "phasv_loop rt0 rt_SR sec corrcoefs rotate_arr idx = Inr vs'"
    and vs: "vs = v # vs'"
    using Cons.prems by (auto split: sum.splits)
  have ih: "length vs' = length idx
     \<and> (\<forall>k < length idx. phas_v rt0 rt_SR sec corrcoefs rotate_arr (idx ! k) = Inr (vs' ! k))"
    using vs' by (rule Cons.IH)
  show ?case using v ih by (auto simp: vs nth_Cons split: nat.splits)
qed

lemma length_py_range: "length (py_range a b) = nat (b - a)"
  by (simp add: py_range_def)

lemma nth_py_range: "k < nat (b - a) \<Longrightarrow> py_range a b ! k = a + int k"
  by (simp add: py_range_def)

lemma phase_vel_Inr:
  assumes "phase_vel rt sec corrcoefs rotate_arr corrsum backas2 ind_band ind_surf = Inr (phasv, EBA)"
  shows "phasv_loop (hd rt) (py_int (sampling_rate (hd rt))) sec corrcoefs rotate_arr
           (py_range (if ind_band then ind_surf else 0) (int (length corrcoefs))) = Inr phasv"
  using assms by (auto simp: phase_vel_def Let_def split: list.splits sum.splits)

lemma phas_v_below:
  assumes "phas_v rt0 rt_SR sec corrcoefs rotate_arr (int i) = Inr v"
    and "i < length corrcoefs"
    and "corrcoefs ! i \<noteq> PInf" and "\<forall>r. corrcoefs ! i = Fin r \<longrightarrow> r < 3 / 4"
  shows "v = NaN"
proof -
  have "\<not> np_ge (corrcoefs ! i) 0.75"
    using assms(3,4) by (cases "corrcoefs ! i") auto
  then show ?thesis
    using assms(1,2) by (simp add: phas_v_def py_index_def)
qed

text \<open>
  C1, as the code has it. The full-band call of phase_vel (ind_band = False)
  starts at window index 0 and returns one value per window of corrcoefs. A band
  call (ind_band = True) starts at the window index ind_surf that the caller
  passes (not negative): it returns one value for each window index from
  ind_surf to the last, in this order, and none for a window before ind_surf.
  The value at a position is the one the loop computes for its window index; it
  is nan when the coefficient of that window is below 0.75 or nan.
\<close>

theorem phase_vel_start_index:
  assumes "phase_vel rt sec corrcoefs rotate_arr corrsum backas2 ind_band ind_surf = Inr (phasv, EBA)"
  shows "(\<not> ind_band \<longrightarrow>
            length phasv = length corrcoefs
            \<and> (\<forall>k < length corrcoefs.
                  phas_v (hd rt) (py_int (sampling_rate (hd rt))) sec corrcoefs rotate_arr (int k)
                    = Inr (phasv ! k)
                  \<and> (corrcoefs ! k \<noteq> PInf \<and> (\<forall>r. corrcoefs ! k = Fin r \<longrightarrow> r < 3 / 4)
                       \<longrightarrow> phasv ! k = NaN)))
       \<and> (ind_band \<and> 0 \<le> ind_surf \<longrightarrow>
            length phasv = length corrcoefs - nat ind_surf
            \<and> (\<forall>k < length corrcoefs - nat ind_surf.
                  phas_v (hd rt) (py_int (sampling_rate (hd rt))) sec corrcoefs rotate_arr (ind_surf + int k)
                    = Inr (phasv ! k)
                  \<and> (corrcoefs ! (nat ind_surf + k) \<noteq> PInf
                       \<and> (\<forall>r. corrcoefs ! (nat ind_surf + k) = Fin r \<longrightarrow> r < 3 / 4)
                       \<longrightarrow> phasv ! k = NaN)))"
proof -
  note loop = phasv_loop_Inr [OF phase_vel_Inr [OF assms]]
  have b: "nat (int (length corrcoefs) - ind_surf) = length corrcoefs - nat ind_surf"
    if "0 \<le> ind_surf" using that by linarith
  show ?thesis
  proof (intro conjI impI allI)
    assume "\<not> ind_band"
    then show "length phasv = length corrcoefs"
      using loop by (simp add: length_py_range)
  next
    fix k
    assume nb: "\<not> ind_band" and k: "k < length corrcoefs"
    show v: "phas_v (hd rt) (py_int (sampling_rate (hd rt))) sec corrcoefs rotate_arr (int k)
              = Inr (phasv ! k)"
      using loop nb k by (simp add: length_py_range nth_py_range)
    assume "corrcoefs ! k \<noteq> PInf \<and> (\<forall>r. corrcoefs ! k = Fin r \<longrightarrow> r < 3 / 4)"
    then show "phasv ! k = NaN"
      using phas_v_below [OF v k] by blast
  next
    assume h: "ind_band \<and> 0 \<le> ind_surf"
    then show "length phasv = length corrcoefs - nat ind_surf"
      using loop b by (simp add: length_py_range)
  next
    fix k
    assume h: "ind_band \<and> 0 \<le> ind_surf" and k: "k < length corrcoefs - nat ind_surf"
    show v: "phas_v (hd rt) (py_int (sampling_rate (hd rt))) sec corrcoefs rotate_arr (ind_surf + int k)
              = Inr (phasv ! k)"
      using loop h b k by (simp add: length_py_range nth_py_range)
    have i: "ind_surf + int k = int (nat ind_surf + k)" using h by simp
    have l: "nat ind_surf + k < length corrcoefs" using k by simp
    assume "corrcoefs ! (nat ind_surf + k) \<noteq> PInf
              \<and> (\<forall>r. corrcoefs ! (nat ind_surf + k) = Fin r \<longrightarrow> r < 3 / 4)"
    then show "phasv ! k = NaN"
      using phas_v_below [OF v [unfolded i] l] by blast
  qed
qed

lemma ex_band_loop:
  "phasv_loop (ex_trace ''Z'' [2, 4]) 1 1 [Fin 0.5, Fin 0.8] ([], [6, 2]) (py_range 1 2)
     = Inr [Fin (1 / 4000)]"
  by (simp add: py_range_def upto.simps phas_v_def py_index_def ex_trace_def
      py_slice_def slice_bound_def np_div_def)

lemma ex_no_backazimuth: "estimated_backazimuth [Fin 0] [0] = Inr NaN"
  by (simp add: estimated_backazimuth_def)

text \<open>
  C1 as stated fails. With two windows of coefficients 0.9 and 0.8 and
  ind_surf = 1, the call with ind_band = False returns a velocity for window 0
  as well, where the claim lets it start at window 1; the call with
  ind_band = True returns the velocity of window 1 only, where the claim lets it
  start at window 0.
\<close>

theorem phase_vel_start_index_counterexample:
  "phase_vel [ex_trace ''Z'' [2, 4]] 1 [Fin 0.9, Fin 0.8] ([], [6, 2]) [Fin 0] [0] False 1
     = Inr ([Fin (3 / 2000), Fin (1 / 4000)], NaN)
   \<and> phase_vel [ex_trace ''Z'' [2, 4]] 1 [Fin 0.9, Fin 0.8] ([], [6, 2]) [Fin 0] [0] True 1
     = Inr ([Fin (1 / 4000)], NaN)"
proof -
  have full: "phasv_loop (ex_trace ''Z'' [2, 4]) 1 1 [Fin 0.9, Fin 0.8] ([], [6, 2]) (py_range 0 2)
     = Inr [Fin (3 / 2000), Fin (1 / 4000)]"
    by (simp add: py_range_def upto.simps phas_v_def py_index_def ex_trace_def
        py_slice_def slice_bound_def np_div_def)
  have band: "phasv_loop (ex_trace ''Z'' [2, 4]) 1 1 [Fin 0.9, Fin 0.8] ([], [6, 2]) (py_range 1 2)
     = Inr [Fin (1 / 4000)]"
    by (simp add: py_range_def upto.simps phas_v_def py_index_def ex_trace_def
        py_slice_def slice_bound_def np_div_def)
  show ?thesis
    using full band ex_no_backazimuth
    by (simp add: phase_vel_def ex_trace_def py_int_def)
qed

text \<open>A band call with two windows and ind_surf = 1 returns the velocity of window 1.\<close>

theorem phase_vel_start_index_witness:
  "phase_vel [ex_trace ''Z'' [2, 4]] 1 [Fin 0.5, Fin 0.8] ([], [6, 2]) [Fin 0] [0] True 1
     = Inr ([Fin (1 / 4000)], NaN)
   \<and> length [Fin (1 / 4000)] = length [Fin 0.5, Fin 0.8 :: npfloat] - nat 1
   \<and> phas_v (hd [ex_trace ''Z'' [2, 4]]) (py_int (sampling_rate (hd [ex_trace ''Z'' [2, 4]]))) 1
        [Fin 0.5, Fin 0.8] ([], [6, 2]) (1 + int 0) = Inr ([Fin (1 / 4000)] ! 0)"
proof -
  have e: "phase_vel [ex_trace ''Z'' [2, 4]] 1 [Fin 0.5, Fin 0.8] ([], [6, 2]) [Fin 0] [0] True 1
     = Inr ([Fin (1 / 4000)], NaN)"
    using ex_band_loop ex_no_backazimuth
    by (simp add: phase_vel_def ex_trace_def py_int_def)
  show ?thesis using e phase_vel_start_index [OF e] by simp
qed

text \<open>
  C3. The claim: for a window whose coefficient is at least 0.75 the velocity is
  0.5 x 0.001 x max |transverse acceleration| / max |rotation rate| over the
  window, and nan below 0.75. phase_vel takes the largest signed sample of each
  window, without the absolute value that the velocities of the plotted windows
  in the same script take. At one window with acceleration samples -4, 1,
  rotation samples 2, -1 and coefficient 0.8 the claim gives
  0.0005 x 4 / 2 = 0.001 km/s; phase_vel returns 0.0005 x 1 / 2 = 0.00025 km/s.
\<close>

theorem phase_vel_signed_maxima:
  "phase_vel [ex_trace ''Z'' [2, - 1]] 2 [Fin 0.8] ([], [- 4, 1]) [Fin 0] [0] False 0
     = Inr ([Fin (1 / 4000)], NaN)
   \<and> phas_v_spec [- 4, 1] [2, - 1] = 1 / 1000"
proof -
  have l: "phasv_loop (ex_trace ''Z'' [2, - 1]) 1 2 [Fin 0.8] ([], [- 4, 1]) (py_range 0 1)
             = Inr [Fin (1 / 4000)]"
    by (simp add: py_range_def upto.simps phas_v_def py_index_def ex_trace_def
        py_slice_def slice_bound_def np_div_def)
  have a: "phase_vel [ex_trace ''Z'' [2, - 1]] 2 [Fin 0.8] ([], [- 4, 1]) [Fin 0] [0] False 0
     = Inr ([Fin (1 / 4000)], NaN)"
    using l ex_no_backazimuth by (simp add: phase_vel_def ex_trace_def py_int_def)
  have b: "phas_v_spec [- 4, 1] [2, - 1] = 1 / 1000"
    by (simp add: phas_v_spec_def)
  show ?thesis using a b by simp
qed

end
